theory Spec2Isabelle
  imports Complex_Main "HOL-Library.Sublist"
begin

section \<open>Values of the host language\<close>

text \<open>
  \<open>PluginApi.ts\<close> is TypeScript, and several of its branches only make sense for
  arguments outside the declared types (\<open>typeof range !== 'string'\<close>, \<open>options || {}\<close>,
  \<open>typeof conf === 'function'\<close>). Values are therefore modelled untyped.

  A number is a finite rational or one of the three non-finite doubles; every double is
  one of these, and negative zero is identified with zero (both are integers, both are
  falsy, both print as \<open>0\<close>). A function is represented by its source text, which is
  what \<open>conf.toString()\<close> yields and the only thing the code ever reads from it.
  An object is the list of its own properties in insertion order.
\<close>

datatype number = Finite rat | NaN | PosInfinity | NegInfinity

datatype jsval =
    JUndefined
  | JNull
  | JBool bool
  | JNum number
  | JBigInt int
  | JSymbol string
  | JStr string
  | JFunc string
  | JArr "jsval list"
  | JObj "(string \<times> jsval) list"

datatype jstype =
  TUndefined | TObject | TBoolean | TNumber | TBigInt | TSymbol | TString | TFunction

fun typeof :: "jsval \<Rightarrow> jstype" where
  "typeof JUndefined = TUndefined"
| "typeof JNull = TObject"
| "typeof (JBool b) = TBoolean"
| "typeof (JNum n) = TNumber"
| "typeof (JBigInt i) = TBigInt"
| "typeof (JSymbol s) = TSymbol"
| "typeof (JStr s) = TString"
| "typeof (JFunc src) = TFunction"
| "typeof (JArr xs) = TObject"
| "typeof (JObj kvs) = TObject"

text \<open>\<open>Number.isInteger\<close>: finite and without fractional part.\<close>

fun isInteger :: "number \<Rightarrow> bool" where
  "isInteger (Finite q) = (q = of_int \<lfloor>q\<rfloor>)"
| "isInteger NaN = False"
| "isInteger PosInfinity = False"
| "isInteger NegInfinity = False"

text \<open>Truthiness, as \<open>||\<close>, \<open>&&\<close> and \<open>!!\<close> test it.\<close>

fun truthy :: "jsval \<Rightarrow> bool" where
  "truthy JUndefined = False"
| "truthy JNull = False"
| "truthy (JBool b) = b"
| "truthy (JNum (Finite q)) = (q \<noteq> 0)"
| "truthy (JNum NaN) = False"
| "truthy (JNum PosInfinity) = True"
| "truthy (JNum NegInfinity) = True"
| "truthy (JBigInt i) = (i \<noteq> 0)"
| "truthy (JSymbol s) = True"
| "truthy (JStr s) = (s \<noteq> [])"
| "truthy (JFunc src) = True"
| "truthy (JArr xs) = True"
| "truthy (JObj kvs) = True"

text \<open>
  Thrown values. The two \<open>throw new Error(...)\<close> of \<open>assertVersion\<close> differ only in
  their message; \<open>TypeError\<close> is what reading a property of \<open>null\<close> or \<open>undefined\<close>
  raises.
\<close>

datatype error = Error string | TypeError string

section \<open>The service and its surroundings\<close>

text \<open>
  \<open>Service\<close> is only imported as a type; the record has the fields that
  \<open>PluginApi\<close> reads and writes: \<open>context\<close> (here
  \<open>project_context\<close>), \<open>pkgJson.version\<close>, \<open>plugins\<close> (their ids), \<open>commands\<close>, the three lists of registered functions and the two user options
  that \<open>getCacheIdentifier\<close> serialises.
\<close>

record command =
  fn :: jsval
  options :: jsval

record service =
  project_context :: string
  pkgJson_version :: string
  plugins :: "string list"
  commands :: "string \<rightharpoonup> command"
  webpackChainFns :: "jsval list"
  webpackRawConfigFns :: "jsval list"
  devServerConfigFns :: "jsval list"
  userOptions_chainWebpack :: jsval
  userOptions_configureWebpack :: jsval

text \<open>
  What the class obtains from outside the repository: the \<open>semver\<close> package (the third
  argument of \<open>satisfies\<close> is the \<open>includePrerelease\<close> option), the conversion of a
  number to a string performed by a template literal, \<open>path.resolve\<close>,
  \<open>loadJSON(_, import.meta.url)\<close>, the two environment variables, the file system, and
  \<open>hash-sum\<close>.
\<close>

record env =
  satisfies :: "string \<Rightarrow> string \<Rightarrow> bool \<Rightarrow> bool"
  number_to_string :: "number \<Rightarrow> string"
  path_resolve :: "string \<Rightarrow> string \<Rightarrow> string"
  loadJSON :: "string \<Rightarrow> error + jsval"
  NODE_ENV :: "string option"
  REACT_CLI_TEST :: "string option"
  existsSync :: "string \<Rightarrow> bool"
  readFileSync :: "string \<Rightarrow> error + string"
  hash :: "jsval \<Rightarrow> string"

section \<open>Identity and version guard\<close>

definition version :: "service \<Rightarrow> string" where
  "version s = pkgJson_version s"

definition expected_range_message :: string where
  "expected_range_message = ''Expected string or integer value.''"

definition incompatible_message :: "string \<Rightarrow> string \<Rightarrow> string" where
  "incompatible_message rng v =
     ''Require @planjs/react-cli-service \"'' @ rng @ ''\", but was loaded with \"'' @ v @ ''\".''"

text \<open>
  The first \<open>if\<close> of \<open>assertVersion\<close>: a number is rejected unless it is an integer,
  and an integer is rewritten to a caret range; anything else passes through.
\<close>

definition normalize_range :: "env \<Rightarrow> jsval \<Rightarrow> error + jsval" where
  "normalize_range e rng =
     (case rng of
        JNum n \<Rightarrow>
          if \<not> isInteger n then Inl (Error expected_range_message)
          else Inr (JStr (''^'' @ number_to_string e n @ ''.0.0-0''))
      | _ \<Rightarrow> Inr rng)"

definition assertVersion :: "env \<Rightarrow> service \<Rightarrow> jsval \<Rightarrow> error + unit" where
  "assertVersion e s rng =
     (case normalize_range e rng of
        Inl err \<Rightarrow> Inl err
      | Inr range1 \<Rightarrow>
          (case range1 of
             JStr r \<Rightarrow>
               if satisfies e (version s) r True then Inr ()
               else Inl (Error (incompatible_message r (version s)))
           | _ \<Rightarrow> Inl (Error expected_range_message)))"

section \<open>Capability registry\<close>

text \<open>
  \<open>this.service.commands[name] = { fn, options: options || {} }\<close>: the table entry for
  \<open>name\<close> is replaced, whatever it was.
\<close>

definition registerCommand :: "service \<Rightarrow> string \<Rightarrow> jsval \<Rightarrow> jsval \<Rightarrow> service" where
  "registerCommand s name opts f =
     s\<lparr>commands := (commands s)(name \<mapsto>
          \<lparr>fn = f, options = (if truthy opts then opts else JObj [])\<rparr>)\<rparr>"

text \<open>A plugin (or several) calling \<open>registerCommand\<close> repeatedly, in the order given.\<close>

fun registerCommands :: "service \<Rightarrow> (string \<times> jsval \<times> jsval) list \<Rightarrow> service" where
  "registerCommands s [] = s"
| "registerCommands s ((name, opts, f) # rest) =
     registerCommands (registerCommand s name opts f) rest"

text \<open>Every entry of the command table has an options field that is there.\<close>

definition options_present :: "service \<Rightarrow> bool" where
  "options_present s =
     (\<forall>n c. commands s n = Some c \<longrightarrow> options c \<noteq> JNull \<and> options c \<noteq> JUndefined)"

text \<open>
  The three methods below are handed functions that are to run later. Whether a
  function runs is not visible in the fields of the service, so these methods are given
  on the service together with a log: \<open>invoked\<close> lists the registered functions that
  have been called so far, in the order of the calls. A method that called a function
  would extend the log. The bodies are \<open>this.service.webpackChainFns.push(fn)\<close> and
  its two siblings, which call nothing but \<open>push\<close>.
\<close>

record host = service +
  invoked :: "jsval list"

definition chainWebpack :: "host \<Rightarrow> jsval \<Rightarrow> host" where
  "chainWebpack h f = h\<lparr>webpackChainFns := webpackChainFns h @ [f]\<rparr>"

definition configureWebpack :: "host \<Rightarrow> jsval \<Rightarrow> host" where
  "configureWebpack h f = h\<lparr>webpackRawConfigFns := webpackRawConfigFns h @ [f]\<rparr>"

definition configureDevServer :: "host \<Rightarrow> jsval \<Rightarrow> host" where
  "configureDevServer h f = h\<lparr>devServerConfigFns := devServerConfigFns h @ [f]\<rparr>"

text \<open>Plugins calling the three methods any number of times, in the order given.\<close>

datatype registration =
  ChainWebpack jsval | ConfigureWebpack jsval | ConfigureDevServer jsval

fun register :: "host \<Rightarrow> registration \<Rightarrow> host" where
  "register h (ChainWebpack f) = chainWebpack h f"
| "register h (ConfigureWebpack f) = configureWebpack h f"
| "register h (ConfigureDevServer f) = configureDevServer h f"

fun registerAll :: "host \<Rightarrow> registration list \<Rightarrow> host" where
  "registerAll h [] = h"
| "registerAll h (r # rs) = registerAll (register h r) rs"

text \<open>The arguments that a sequence of registrations hands to each method.\<close>

fun chainWebpackArgs :: "registration list \<Rightarrow> jsval list" where
  "chainWebpackArgs [] = []"
| "chainWebpackArgs (ChainWebpack f # rs) = f # chainWebpackArgs rs"
| "chainWebpackArgs (r # rs) = chainWebpackArgs rs"

fun configureWebpackArgs :: "registration list \<Rightarrow> jsval list" where
  "configureWebpackArgs [] = []"
| "configureWebpackArgs (ConfigureWebpack f # rs) = f # configureWebpackArgs rs"
| "configureWebpackArgs (r # rs) = configureWebpackArgs rs"

fun configureDevServerArgs :: "registration list \<Rightarrow> jsval list" where
  "configureDevServerArgs [] = []"
| "configureDevServerArgs (ConfigureDevServer f # rs) = f # configureDevServerArgs rs"
| "configureDevServerArgs (r # rs) = configureDevServerArgs rs"

text \<open>
  Modelled from the spec: \<open>Service.resolveChainableWebpackConfig\<close>, to which
  \<open>PluginApi.resolveChainableWebpackConfig\<close> delegates and whose file is not among the
  sources. Section 4.3: a builder seeded with the base configuration is passed to
  ``every registered chain-mutation function, in registration order'', each editing
  the same builder; section 5: resolution ``runs to completion or fails outright with
  a propagated error''. What a function does to the builder is the function's own
  business: \<open>call f c\<close> is the builder after \<open>f\<close> has run on \<open>c\<close>, or what \<open>f\<close>
  threw. This is where registered functions are called, and where the log grows.
\<close>

fun callAll ::
  "(jsval \<Rightarrow> 'c \<Rightarrow> error + 'c) \<Rightarrow> jsval list \<Rightarrow> 'c \<Rightarrow> jsval list
     \<Rightarrow> (error + 'c) \<times> jsval list" where
  "callAll call [] c sofar = (Inr c, sofar)"
| "callAll call (f # fs) c sofar =
     (case call f c of
        Inl err \<Rightarrow> (Inl err, sofar @ [f])
      | Inr c' \<Rightarrow> callAll call fs c' (sofar @ [f]))"

definition resolveChainableWebpackConfig ::
  "(jsval \<Rightarrow> 'c \<Rightarrow> error + 'c) \<Rightarrow> 'c \<Rightarrow> host \<Rightarrow> (error + 'c) \<times> host" where
  "resolveChainableWebpackConfig call base h =
     (case callAll call (webpackChainFns h) base (invoked h) of
        (result, sofar) \<Rightarrow> (result, h\<lparr>invoked := sofar\<rparr>))"

section \<open>Cache identifier\<close>

abbreviation CR :: char where "CR \<equiv> CHR 0x0D"
abbreviation LF :: char where "LF \<equiv> CHR 0x0A"

text \<open>
  \<open>.replace(/\r\n?/g, '\n')\<close>: scanning from the left, a carriage return together with
  a line feed that follows it, or a carriage return alone, becomes one line feed.
\<close>

fun replace_crlf :: "string \<Rightarrow> string" where
  "replace_crlf [] = []"
| "replace_crlf [c] = (if c = CR then [LF] else [c])"
| "replace_crlf (c # d # cs) =
     (if c = CR then
        (if d = LF then LF # replace_crlf cs else LF # replace_crlf (d # cs))
      else c # replace_crlf (d # cs))"

definition resolve :: "env \<Rightarrow> service \<Rightarrow> string \<Rightarrow> string" where
  "resolve e s p = path_resolve e (project_context s) p"

definition fmtFunc :: "jsval \<Rightarrow> jsval" where
  "fmtFunc conf = (case conf of JFunc src \<Rightarrow> JStr (replace_crlf src) | _ \<Rightarrow> conf)"

text \<open>
  Reading \<open>.version\<close>: a \<open>TypeError\<close> on \<open>null\<close> and \<open>undefined\<close>, the property of
  an object that has it, \<open>undefined\<close> otherwise.
\<close>

fun version_of :: "jsval \<Rightarrow> error + jsval" where
  "version_of JUndefined = Inl (TypeError ''Cannot read properties of undefined'')"
| "version_of JNull = Inl (TypeError ''Cannot read properties of null'')"
| "version_of (JObj kvs) =
     Inr (case map_of kvs ''version'' of Some v \<Rightarrow> v | None \<Rightarrow> JUndefined)"
| "version_of v = Inr JUndefined"

text \<open>\<open>loadJSON(p, import.meta.url).version\<close>\<close>

definition loaded_version :: "env \<Rightarrow> string \<Rightarrow> error + jsval" where
  "loaded_version e p = (case loadJSON e p of Inl err \<Rightarrow> Inl err | Inr j \<Rightarrow> version_of j)"

text \<open>
  The \<open>try\<close> block around the \<open>cache-loader\<close> lookup: the value it assigns, or
  nothing when the load or the property read throws.
\<close>

definition cacheLoaderVersion :: "env \<Rightarrow> jsval option" where
  "cacheLoaderVersion e =
     (case loaded_version e ''cache-loader/package.json'' of
        Inr v \<Rightarrow> Some v
      | Inl err \<Rightarrow> None)"

text \<open>Assignment to a property: an existing one keeps its place, a new one goes last.\<close>

fun set_prop :: "(string \<times> jsval) list \<Rightarrow> string \<Rightarrow> jsval \<Rightarrow> (string \<times> jsval) list" where
  "set_prop [] k v = [(k, v)]"
| "set_prop ((k', v') # kvs) k v =
     (if k' = k then (k, v) # kvs else (k', v') # set_prop kvs k v)"

text \<open>An environment variable is a string or \<open>undefined\<close>.\<close>

definition env_value :: "string option \<Rightarrow> jsval" where
  "env_value x = (case x of None \<Rightarrow> JUndefined | Some v \<Rightarrow> JStr v)"

text \<open>
  The third parameter is declared \<open>string[] | string\<close> with the default \<open>[]\<close>, which
  applies when the argument is left out.
\<close>

datatype configFilesArg = Omitted | Single string | Files "string list"

definition lockfiles :: "string list" where
  "lockfiles = [''package-lock.json'', ''yarn.lock'', ''pnpm-lock.yaml'']"

definition configFileList :: "configFilesArg \<Rightarrow> string list" where
  "configFileList configFiles =
     (case configFiles of Omitted \<Rightarrow> [] | Single f \<Rightarrow> [f] | Files fs \<Rightarrow> fs) @ lockfiles"

text \<open>
  \<open>readConfig\<close> is \<open>undefined\<close> (here \<open>None\<close>) for a file that does not exist and for a
  file whose read throws. \<open>readAbsolute\<close> is its body after the path has been resolved.
\<close>

definition readAbsolute :: "env \<Rightarrow> string \<Rightarrow> string option" where
  "readAbsolute e absolutePath =
     (if \<not> existsSync e absolutePath then None
      else (case readFileSync e absolutePath of Inr content \<Rightarrow> Some content | Inl err \<Rightarrow> None))"

definition readConfig :: "env \<Rightarrow> service \<Rightarrow> string \<Rightarrow> string option" where
  "readConfig e s file = readAbsolute e (resolve e s file)"

text \<open>\<open>content && content.replace(/\r\n?/g, '\n')\<close>\<close>

definition normalizeContent :: "string option \<Rightarrow> jsval" where
  "normalizeContent content =
     (case content of
        None \<Rightarrow> JUndefined
      | Some c \<Rightarrow> if truthy (JStr c) then JStr (replace_crlf c) else JStr c)"

text \<open>
  The object \<open>variables\<close> as it is when it is hashed. The only statement outside a
  \<open>try\<close> that can throw is the read of the service's own \<open>package.json\<close>.
\<close>

definition cacheVariables ::
  "env \<Rightarrow> service \<Rightarrow> jsval \<Rightarrow> configFilesArg \<Rightarrow> error + (string \<times> jsval) list" where
  "cacheVariables e s partialIdentifier configFiles =
     (case loaded_version e ''../package.json'' of
        Inl err \<Rightarrow> Inl err
      | Inr cliService \<Rightarrow>
          (let variables =
                 [(''partialIdentifier'', partialIdentifier),
                  (''cli-service'', cliService),
                  (''env'', env_value (NODE_ENV e)),
                  (''test'', JBool (truthy (env_value (REACT_CLI_TEST e)))),
                  (''config'', JArr [fmtFunc (userOptions_chainWebpack s),
                                     fmtFunc (userOptions_configureWebpack s)])];
               variables1 =
                 (case cacheLoaderVersion e of
                    Some v \<Rightarrow> set_prop variables ''cache-loader'' v
                  | None \<Rightarrow> variables);
               files = configFileList configFiles
           in Inr (set_prop variables1 ''configFiles''
                     (JArr (map (\<lambda>file. normalizeContent (readConfig e s file)) files)))))"

record cache_result =
  cacheDirectory :: string
  cacheIdentifier :: string

definition getCacheIdentifier ::
  "env \<Rightarrow> service \<Rightarrow> string \<Rightarrow> jsval \<Rightarrow> configFilesArg \<Rightarrow> error + cache_result" where
  "getCacheIdentifier e s ident partialIdentifier configFiles =
     (let dir = resolve e s (''node_modules/.cache/'' @ ident)
      in case cacheVariables e s partialIdentifier configFiles of
           Inl err \<Rightarrow> Inl err
         | Inr variables \<Rightarrow>
             Inr \<lparr>cacheDirectory = dir, cacheIdentifier = hash e (JObj variables)\<rparr>)"

section \<open>A concrete project\<close>

text \<open>
  One installation, used for the examples below: service version \<open>5.0.8\<close>, project
  root \<open>/app\<close>, no \<open>cache-loader\<close> installed, a \<open>yarn.lock\<close> with Windows line
  endings, and a \<open>babel.config.js\<close> that exists but cannot be read. The external
  functions are given on the inputs the examples use: \<open>sample_satisfies\<close> holds the
  answers of \<open>semver\<close> for version \<open>5.0.8\<close> against the ranges the examples ask
  about (the three it lists, which are satisfied, and \<open>^4.0.0-0\<close>, which is not),
  \<open>sample_number_to_string\<close> is the decimal notation (the language's own up to
  \<open>10\<^sup>2\<^sup>1\<close>), \<open>sample_path_resolve\<close> joins a relative path to the root, and
  \<open>sample_hash\<close> is a structural serialisation standing for \<open>hash-sum\<close>.
\<close>

fun decimal :: "nat \<Rightarrow> string" where
  "decimal n =
     (if n < 10 then [''0123456789'' ! n]
      else decimal (n div 10) @ [''0123456789'' ! (n mod 10)])"

definition sample_number_to_string :: "number \<Rightarrow> string" where
  "sample_number_to_string n =
     (case n of
        Finite q \<Rightarrow> (if q < 0 then ''-'' else []) @ decimal (nat \<lfloor>\<bar>q\<bar>\<rfloor>)
      | NaN \<Rightarrow> ''NaN''
      | PosInfinity \<Rightarrow> ''Infinity''
      | NegInfinity \<Rightarrow> ''-Infinity'')"

definition sample_satisfies :: "string \<Rightarrow> string \<Rightarrow> bool \<Rightarrow> bool" where
  "sample_satisfies v r includePrerelease =
     (v = ''5.0.8'' \<and> (r = ''^5.0.0-0'' \<or> r = ''>=5.0.0'' \<or> r = ''5.x''))"

definition sample_path_resolve :: "string \<Rightarrow> string \<Rightarrow> string" where
  "sample_path_resolve base p =
     (case p of [] \<Rightarrow> base | c # cs \<Rightarrow> if c = CHR ''/'' then p else base @ ''/'' @ p)"

definition sample_loadJSON :: "string \<Rightarrow> error + jsval" where
  "sample_loadJSON p =
     (if p = ''../package.json''
      then Inr (JObj [(''name'', JStr ''@planjs/react-cli-service''),
                      (''version'', JStr ''5.0.8'')])
      else Inl (Error ''Cannot find module''))"

fun sample_hash :: "jsval \<Rightarrow> string" where
  "sample_hash JUndefined = ''u''"
| "sample_hash JNull = ''n''"
| "sample_hash (JBool b) = (if b then ''t'' else ''f'')"
| "sample_hash (JNum n) = ''#'' @ sample_number_to_string n"
| "sample_hash (JBigInt i) = ''b''"
| "sample_hash (JSymbol d) = ''y'' @ d"
| "sample_hash (JStr t) = ''s'' @ t"
| "sample_hash (JFunc src) = ''F'' @ src"
| "sample_hash (JArr xs) = ''['' @ concat (map sample_hash xs) @ '']''"
| "sample_hash (JObj kvs) =
     ''{'' @ concat (map (\<lambda>kv. fst kv @ '':'' @ sample_hash (snd kv)) kvs) @ ''}''"

definition sample_env :: env where
  "sample_env =
     \<lparr>satisfies = sample_satisfies,
      number_to_string = sample_number_to_string,
      path_resolve = sample_path_resolve,
      loadJSON = sample_loadJSON,
      NODE_ENV = Some ''production'',
      REACT_CLI_TEST = None,
      existsSync = (\<lambda>p. p = ''/app/yarn.lock'' \<or> p = ''/app/babel.config.js''),
      readFileSync = (\<lambda>p. if p = ''/app/yarn.lock''
                           then Inr (''lodash@4:'' @ [CR, LF] @ ''  version 4'' @ [CR, LF])
                           else Inl (Error ''EACCES'')),
      hash = sample_hash\<rparr>"

definition sample_service :: service where
  "sample_service =
     \<lparr>project_context = ''/app'',
      pkgJson_version = ''5.0.8'',
      plugins = [''@planjs/react-cli-plugin-babel''],
      commands = Map.empty,
      webpackChainFns = [],
      webpackRawConfigFns = [],
      devServerConfigFns = [],
      userOptions_chainWebpack = JFunc (''(c) => {'' @ [CR, LF] @ ''}''),
      userOptions_configureWebpack = JUndefined\<rparr>"

text \<open>
  The same project checked out on another machine: line feeds only, in the lock file
  and in the user's function, and no \<open>babel.config.js\<close> at all.
\<close>

definition sample_env_lf :: env where
  "sample_env_lf =
     sample_env
       \<lparr>existsSync := (\<lambda>p. p = ''/app/yarn.lock''),
        readFileSync := (\<lambda>p. if p = ''/app/yarn.lock''
                              then Inr (''lodash@4:'' @ [LF] @ ''  version 4'' @ [LF])
                              else Inl (Error ''ENOENT''))\<rparr>"

definition sample_service_lf :: service where
  "sample_service_lf =
     sample_service\<lparr>userOptions_chainWebpack := JFunc (''(c) => {'' @ [LF] @ ''}'')\<rparr>"

section \<open>Properties of the version guard\<close>

text \<open>
  C2. For a range given as a string \<open>R\<close> and a service of version \<open>V\<close>,
  \<open>assertVersion\<close> throws exactly when \<open>semver.satisfies(V, R, {includePrerelease:
  true})\<close> is false, and returns normally exactly when it is true. This holds for every
  string, valid as a range or not.
\<close>

theorem assertVersion_satisfies_iff:
  "isl (assertVersion e (s\<lparr>pkgJson_version := V\<rparr>) (JStr R)) = (\<not> satisfies e V R True)
   \<and> (assertVersion e (s\<lparr>pkgJson_version := V\<rparr>) (JStr R) = Inr ()) = satisfies e V R True
   \<and> version (s\<lparr>pkgJson_version := V\<rparr>) = V"
  by (simp add: assertVersion_def normalize_range_def version_def)

text \<open>
  C3. For every integer \<open>N\<close>, \<open>assertVersion(N)\<close> gives the result (the same return
  or the same error, message included) of \<open>assertVersion\<close> applied to the string made
  of a caret, \<open>N\<close> as the template literal prints it, and \<open>.0.0-0\<close>.
\<close>

theorem assertVersion_integer_as_caret_range:
  "assertVersion e s (JNum (Finite (of_int N)))
     = assertVersion e s (JStr (''^'' @ number_to_string e (Finite (of_int N)) @ ''.0.0-0''))"
  by (simp add: assertVersion_def normalize_range_def)

lemma expected_not_incompatible: "expected_range_message \<noteq> incompatible_message r w"
  by (simp add: expected_range_message_def incompatible_message_def)

text \<open>
  C6. A number that is not an integer (a fraction, \<open>NaN\<close>, an infinity), and a value
  that is neither a number nor a string, always make \<open>assertVersion\<close> throw the error
  \<open>Expected string or integer value.\<close>, which is never the error of an incompatible
  version.
\<close>

theorem assertVersion_malformed_range:
  "(\<not> isInteger n \<longrightarrow> assertVersion e s (JNum n) = Inl (Error expected_range_message))
   \<and> (typeof v \<noteq> TNumber \<and> typeof v \<noteq> TString \<longrightarrow>
        assertVersion e s v = Inl (Error expected_range_message))
   \<and> Error expected_range_message \<noteq> Error (incompatible_message r w)"
proof (intro conjI impI)
  assume "\<not> isInteger n"
  then show "assertVersion e s (JNum n) = Inl (Error expected_range_message)"
    by (simp add: assertVersion_def normalize_range_def)
next
  assume "typeof v \<noteq> TNumber \<and> typeof v \<noteq> TString"
  then show "assertVersion e s v = Inl (Error expected_range_message)"
    by (cases v) (simp_all add: assertVersion_def normalize_range_def)
next
  show "Error expected_range_message \<noteq> Error (incompatible_message r w)"
    using expected_not_incompatible by simp
qed

text \<open>The guard on \<open>1.5\<close> and on \<open>null\<close>, in the concrete project.\<close>

theorem assertVersion_malformed_range_witness:
  "\<not> isInteger (Finite (3 / 2))
   \<and> assertVersion sample_env sample_service (JNum (Finite (3 / 2)))
       = Inl (Error expected_range_message)
   \<and> typeof JNull \<noteq> TNumber \<and> typeof JNull \<noteq> TString
   \<and> assertVersion sample_env sample_service JNull = Inl (Error expected_range_message)"
proof -
  have h1: "\<not> isInteger (Finite (3 / 2))" by code_simp
  have h2: "typeof JNull \<noteq> TNumber \<and> typeof JNull \<noteq> TString" by simp
  from assertVersion_malformed_range [of "Finite (3 / 2)" sample_env sample_service JNull]
  show ?thesis using h1 h2 by blast
qed

text \<open>
  C9. Whenever \<open>assertVersion\<close> throws an error other than the malformed-range one,
  the argument had been normalised to a range string \<open>r\<close> (the argument itself when it
  is a string, the caret range when it is an integer) that the service's version does
  not satisfy, and the message contains both \<open>r\<close> and the version.
\<close>

theorem assertVersion_incompatible_names_range_and_version:
  assumes "assertVersion e s rng = Inl (Error m)"
    and "m \<noteq> expected_range_message"
  shows "\<exists>r. normalize_range e rng = Inr (JStr r) \<and> \<not> satisfies e (version s) r True
           \<and> sublist r m \<and> sublist (version s) m"
proof (cases "normalize_range e rng")
  case (Inl err)
  with assms show ?thesis
    by (auto simp: assertVersion_def normalize_range_def split: jsval.splits if_splits)
next
  case (Inr range1)
  show ?thesis
  proof (cases range1)
    case (JStr r)
    with Inr assms have unsat: "\<not> satisfies e (version s) r True"
      and m: "m = incompatible_message r (version s)"
      by (auto simp: assertVersion_def split: if_splits)
    have "sublist r m"
      unfolding m incompatible_message_def by (rule sublist_appendI)
    moreover have "sublist (version s) m"
      unfolding m incompatible_message_def
      using sublist_appendI by (metis append.assoc)
    ultimately show ?thesis using Inr JStr unsat by simp
  qed (use Inr assms in \<open>auto simp: assertVersion_def\<close>)
qed

text \<open>A plugin asking for major version 4 of a service that is at \<open>5.0.8\<close>.\<close>

theorem assertVersion_incompatible_witness:
  "assertVersion sample_env sample_service (JNum (Finite 4))
     = Inl (Error (incompatible_message ''^4.0.0-0'' ''5.0.8''))
   \<and> incompatible_message ''^4.0.0-0'' ''5.0.8'' \<noteq> expected_range_message
   \<and> (\<exists>r. normalize_range sample_env (JNum (Finite 4)) = Inr (JStr r)
           \<and> \<not> satisfies sample_env (version sample_service) r True
           \<and> sublist r (incompatible_message ''^4.0.0-0'' ''5.0.8'')
           \<and> sublist (version sample_service) (incompatible_message ''^4.0.0-0'' ''5.0.8''))"
proof -
  have h1: "assertVersion sample_env sample_service (JNum (Finite 4))
     = Inl (Error (incompatible_message ''^4.0.0-0'' ''5.0.8''))"
    by (simp add: assertVersion_def normalize_range_def sample_env_def sample_service_def
        sample_number_to_string_def sample_satisfies_def version_def)
  have h2: "incompatible_message ''^4.0.0-0'' ''5.0.8'' \<noteq> expected_range_message"
    by (simp add: expected_range_message_def incompatible_message_def)
  from assertVersion_incompatible_names_range_and_version [OF h1 h2] h1 h2
  show ?thesis by blast
qed

section \<open>Properties of the registry\<close>

lemma commands_registerCommand:
  "commands (registerCommand s name opts f) =
     (commands s)(name \<mapsto> \<lparr>fn = f, options = (if truthy opts then opts else JObj [])\<rparr>)"
  by (simp add: registerCommand_def)

lemma registerCommands_append:
  "registerCommands s (xs @ ys) = registerCommands (registerCommands s xs) ys"
  by (induction s xs rule: registerCommands.induct) simp_all

text \<open>
  C5. Registering \<open>name\<close> a second time replaces the first entry: the table then maps
  \<open>name\<close> to the second handler and the second options (an options descriptor is
  stored as it is). The same holds after any sequence of earlier registrations, and the
  operation has no error result.
\<close>

theorem registerCommand_last_writer_wins:
  "commands (registerCommand (registerCommand s name options1 handler1)
               name options2 handler2) name
     = Some \<lparr>fn = handler2, options = (if truthy options2 then options2 else JObj [])\<rparr>
   \<and> commands (registerCommand (registerCommand s name options1 handler1)
                 name (JObj descriptor2) handler2) name
     = Some \<lparr>fn = handler2, options = JObj descriptor2\<rparr>
   \<and> commands (registerCommands s (earlier @ [(name, JObj descriptor2, handler2)])) name
     = Some \<lparr>fn = handler2, options = JObj descriptor2\<rparr>"
  by (simp add: commands_registerCommand registerCommands_append)

lemma registerAll_append:
  "registerAll h (xs @ ys) = registerAll (registerAll h xs) ys"
  by (induction h xs rule: registerAll.induct) simp_all

lemma register_lists:
  "webpackChainFns (register h r) = webpackChainFns h @ chainWebpackArgs [r]"
  "webpackRawConfigFns (register h r) = webpackRawConfigFns h @ configureWebpackArgs [r]"
  "devServerConfigFns (register h r) = devServerConfigFns h @ configureDevServerArgs [r]"
  by (cases r; simp add: chainWebpack_def configureWebpack_def configureDevServer_def)+

lemma register_frame:
  "invoked (register h r) = invoked h"
  "commands (register h r) = commands h"
  by (cases r; simp add: chainWebpack_def configureWebpack_def configureDevServer_def)+

lemma args_Cons:
  "chainWebpackArgs (r # rs) = chainWebpackArgs [r] @ chainWebpackArgs rs"
  "configureWebpackArgs (r # rs) = configureWebpackArgs [r] @ configureWebpackArgs rs"
  "configureDevServerArgs (r # rs) = configureDevServerArgs [r] @ configureDevServerArgs rs"
  by (cases r; simp)+

lemma registerAll_lists:
  "webpackChainFns (registerAll h regs) = webpackChainFns h @ chainWebpackArgs regs"
  "webpackRawConfigFns (registerAll h regs) = webpackRawConfigFns h @ configureWebpackArgs regs"
  "devServerConfigFns (registerAll h regs) = devServerConfigFns h @ configureDevServerArgs regs"
proof (induction h regs rule: registerAll.induct)
  case (1 h)
  {
    case 1 show ?case by simp
  next
    case 2 show ?case by simp
  next
    case 3 show ?case by simp
  }
next
  case (2 h r rs)
  {
    case 1
    show ?case using "2.IH"(1) args_Cons(1) [of r rs] by (simp add: register_lists(1))
  next
    case 2
    show ?case using "2.IH"(2) args_Cons(2) [of r rs] by (simp add: register_lists(2))
  next
    case 3
    show ?case using "2.IH"(3) args_Cons(3) [of r rs] by (simp add: register_lists(3))
  }
qed

lemma registerAll_frame:
  "invoked (registerAll h regs) = invoked h"
  "commands (registerAll h regs) = commands h"
  by (induction h regs rule: registerAll.induct) (simp_all add: register_frame)

text \<open>
  C8. Each of \<open>chainWebpack\<close>, \<open>configureWebpack\<close> and \<open>configureDevServer\<close> puts
  its argument at the end of its own list, calls no function (the log of calls is as
  it was, so neither the argument nor any function registered before has run), and
  leaves everything else as it was: putting the old list back gives the host before the
  call. Over any sequence of registrations each list grows by the arguments given to its
  method, in the order given, the entries already there stay in front, the command
  table is unchanged and still no function has been called.
\<close>

theorem registration_appends_only:
  "webpackChainFns (chainWebpack h f) = webpackChainFns h @ [f]
   \<and> invoked (chainWebpack h f) = invoked h
   \<and> (chainWebpack h f)\<lparr>webpackChainFns := webpackChainFns h\<rparr> = h
   \<and> webpackRawConfigFns (configureWebpack h f) = webpackRawConfigFns h @ [f]
   \<and> invoked (configureWebpack h f) = invoked h
   \<and> (configureWebpack h f)\<lparr>webpackRawConfigFns := webpackRawConfigFns h\<rparr> = h
   \<and> devServerConfigFns (configureDevServer h f) = devServerConfigFns h @ [f]
   \<and> invoked (configureDevServer h f) = invoked h
   \<and> (configureDevServer h f)\<lparr>devServerConfigFns := devServerConfigFns h\<rparr> = h
   \<and> webpackChainFns (registerAll h regs) = webpackChainFns h @ chainWebpackArgs regs
   \<and> webpackRawConfigFns (registerAll h regs)
       = webpackRawConfigFns h @ configureWebpackArgs regs
   \<and> devServerConfigFns (registerAll h regs)
       = devServerConfigFns h @ configureDevServerArgs regs
   \<and> commands (registerAll h regs) = commands h
   \<and> invoked (registerAll h regs) = invoked h"
proof -
  have single:
    "webpackChainFns (chainWebpack h f) = webpackChainFns h @ [f]
     \<and> invoked (chainWebpack h f) = invoked h
     \<and> (chainWebpack h f)\<lparr>webpackChainFns := webpackChainFns h\<rparr> = h
     \<and> webpackRawConfigFns (configureWebpack h f) = webpackRawConfigFns h @ [f]
     \<and> invoked (configureWebpack h f) = invoked h
     \<and> (configureWebpack h f)\<lparr>webpackRawConfigFns := webpackRawConfigFns h\<rparr> = h
     \<and> devServerConfigFns (configureDevServer h f) = devServerConfigFns h @ [f]
     \<and> invoked (configureDevServer h f) = invoked h
     \<and> (configureDevServer h f)\<lparr>devServerConfigFns := devServerConfigFns h\<rparr> = h"
    by (simp add: chainWebpack_def configureWebpack_def configureDevServer_def)
  show ?thesis
    using single registerAll_lists [of h regs] registerAll_frame [of h regs] by blast
qed

text \<open>
  The functions run when the configuration is resolved: resolving after
  \<open>chainWebpack f\<close> is resolving what was registered before and then, unless one of
  those threw, calling \<open>f\<close> on the builder they left.
\<close>

lemma callAll_snoc:
  "callAll call (fs @ [f]) c sofar =
     (case callAll call fs c sofar of
        (Inl err, sofar') \<Rightarrow> (Inl err, sofar')
      | (Inr c', sofar') \<Rightarrow> (call f c', sofar' @ [f]))"
proof (induction fs arbitrary: c sofar)
  case Nil
  show ?case by (simp split: sum.splits)
next
  case (Cons g gs)
  show ?case by (simp add: Cons.IH split: sum.splits)
qed

lemma resolve_after_chainWebpack:
  "resolveChainableWebpackConfig call base (chainWebpack h f) =
     (case resolveChainableWebpackConfig call base h of
        (Inl err, h') \<Rightarrow> (Inl err, chainWebpack h' f)
      | (Inr c, h') \<Rightarrow> (call f c, (chainWebpack h' f)\<lparr>invoked := invoked h' @ [f]\<rparr>))"
  by (simp add: resolveChainableWebpackConfig_def chainWebpack_def callAll_snoc
      split: prod.splits sum.splits)

lemma truthy_present: "truthy v \<Longrightarrow> v \<noteq> JNull \<and> v \<noteq> JUndefined"
  by (cases v) simp_all

lemma registerCommand_options_present:
  assumes "options_present s"
  shows "options_present (registerCommand s name opts f)"
  unfolding options_present_def
proof (intro allI impI)
  fix n c
  assume c: "commands (registerCommand s name opts f) n = Some c"
  show "options c \<noteq> JNull \<and> options c \<noteq> JUndefined"
  proof (cases "n = name")
    case True
    with c have "options c = (if truthy opts then opts else JObj [])"
      by (auto simp: commands_registerCommand)
    then show ?thesis using truthy_present [of opts] by (cases "truthy opts") simp_all
  next
    case False
    with c have "commands s n = Some c" by (simp add: commands_registerCommand)
    with assms show ?thesis unfolding options_present_def by blast
  qed
qed

lemma registerCommands_options_present:
  "options_present s \<Longrightarrow> options_present (registerCommands s regs)"
proof (induction s regs rule: registerCommands.induct)
  case (1 s)
  then show ?case by simp
next
  case (2 s name opts f rest)
  then show ?case using registerCommand_options_present by simp
qed

lemma options_present_empty: "options_present (s\<lparr>commands := Map.empty\<rparr>)"
  by (simp add: options_present_def)

text \<open>
  C10. A command registered with \<open>null\<close> or \<open>undefined\<close> for its options is stored
  with the empty object. Hence a table whose entries all have an options field keeps
  that property under any sequence of registrations, and so does the empty table.
\<close>

theorem registerCommand_defaults_options:
  "commands (registerCommand s name JNull f) name = Some \<lparr>fn = f, options = JObj []\<rparr>
   \<and> commands (registerCommand s name JUndefined f) name = Some \<lparr>fn = f, options = JObj []\<rparr>
   \<and> (options_present s \<longrightarrow> options_present (registerCommands s regs))
   \<and> options_present (registerCommands (s\<lparr>commands := Map.empty\<rparr>) regs)"
  using registerCommands_options_present options_present_empty
  by (simp add: commands_registerCommand)

text \<open>
  A table that already has \<open>serve\<close>, to which \<open>build\<close> is added without options.
\<close>

theorem registerCommand_defaults_options_witness:
  "options_present
     (registerCommand sample_service ''serve'' (JObj [(''--open'', JStr ''open browser'')])
        (JFunc ''serve''))
   \<and> options_present
       (registerCommands
          (registerCommand sample_service ''serve''
             (JObj [(''--open'', JStr ''open browser'')]) (JFunc ''serve''))
          [(''build'', JNull, JFunc ''build'')])
   \<and> commands
       (registerCommands
          (registerCommand sample_service ''serve''
             (JObj [(''--open'', JStr ''open browser'')]) (JFunc ''serve''))
          [(''build'', JNull, JFunc ''build'')]) ''build''
     = Some \<lparr>fn = JFunc ''build'', options = JObj []\<rparr>"
proof -
  let ?s = "registerCommand sample_service ''serve''
              (JObj [(''--open'', JStr ''open browser'')]) (JFunc ''serve'')"
  have "options_present sample_service"
    by (simp add: options_present_def sample_service_def)
  then have h: "options_present ?s"
    by (rule registerCommand_options_present)
  from registerCommand_defaults_options
         [of ?s "''build''" "JFunc ''build''" "[(''build'', JNull, JFunc ''build'')]"] h
  show ?thesis by simp
qed

section \<open>Properties of the cache identifier\<close>

lemma map_of_set_prop:
  "map_of (set_prop kvs k v) k' = (if k' = k then Some v else map_of kvs k')"
  by (induction kvs k v rule: set_prop.induct) auto

lemma cacheVariables_configFiles:
  assumes "cacheVariables e s pid cf = Inr variables"
  shows "map_of variables ''configFiles'' =
     Some (JArr (map (\<lambda>file. normalizeContent (readConfig e s file)) (configFileList cf)))"
  using assms
  by (auto simp: cacheVariables_def Let_def map_of_set_prop split: sum.splits)

lemma cacheVariables_config:
  assumes "cacheVariables e s pid cf = Inr variables"
  shows "map_of variables ''config'' =
     Some (JArr [fmtFunc (userOptions_chainWebpack s), fmtFunc (userOptions_configureWebpack s)])"
  using assms
  by (auto simp: cacheVariables_def Let_def map_of_set_prop split: sum.splits option.splits)

lemma cacheVariables_cache_loader:
  assumes "cacheVariables e s pid cf = Inr variables"
  shows "map_of variables ''cache-loader'' = cacheLoaderVersion e"
  using assms
  by (auto simp: cacheVariables_def Let_def map_of_set_prop split: sum.splits option.splits)

lemma cacheVariables_succeeds:
  assumes "loaded_version e ''../package.json'' = Inr v"
  shows "\<exists>variables. cacheVariables e s pid cf = Inr variables"
  using assms by (simp add: cacheVariables_def Let_def)

lemma cacheVariables_fails:
  "isl (cacheVariables e s pid cf) = isl (loaded_version e ''../package.json'')"
  by (simp add: cacheVariables_def Let_def split: sum.splits)

lemma normalizeContent_eq:
  "normalizeContent content =
     (case map_option replace_crlf content of None \<Rightarrow> JUndefined | Some c \<Rightarrow> JStr c)"
  by (auto simp: normalizeContent_def split: option.splits)

lemma readConfig_absent:
  "\<not> existsSync e (resolve e s file) \<or> isl (readFileSync e (resolve e s file))
   \<Longrightarrow> normalizeContent (readConfig e s file) = JUndefined"
  by (auto simp: normalizeContent_def readConfig_def readAbsolute_def split: sum.splits)



lemma sample_variables:
  "cacheVariables sample_env sample_service (JStr ''babel'') (Single ''babel.config.js'') =
     Inr [(''partialIdentifier'', JStr ''babel''),
          (''cli-service'', JStr ''5.0.8''),
          (''env'', JStr ''production''),
          (''test'', JBool False),
          (''config'', JArr [JStr (''(c) => {'' @ [LF] @ ''}''), JUndefined]),
          (''configFiles'',
             JArr [JUndefined, JUndefined,
                   JStr (''lodash@4:'' @ [LF] @ ''  version 4'' @ [LF]), JUndefined])]"
  by (simp add: cacheVariables_def loaded_version_def cacheLoaderVersion_def sample_env_def
      sample_service_def sample_loadJSON_def env_value_def fmtFunc_def configFileList_def
      lockfiles_def normalizeContent_def readConfig_def readAbsolute_def resolve_def
      sample_path_resolve_def)



text \<open>
  C4. \<open>getCacheIdentifier\<close> fails only when the service's own \<open>package.json\<close>
  cannot be loaded. When that load succeeds it returns its pair, whatever the state of
  the optional inputs: a \<open>cache-loader\<close> lookup that throws leaves no
  \<open>cache-loader\<close> entry, and a file that does not exist or whose read throws
  contributes \<open>undefined\<close> at its position in \<open>configFiles\<close>.
\<close>

theorem getCacheIdentifier_tolerates_missing_inputs:
  "isl (getCacheIdentifier e s ident pid cf) = isl (loaded_version e ''../package.json'')
   \<and> (loaded_version e ''../package.json'' = Inr v \<longrightarrow>
        (\<exists>variables entries.
           cacheVariables e s pid cf = Inr variables
           \<and> getCacheIdentifier e s ident pid cf =
               Inr \<lparr>cacheDirectory = resolve e s (''node_modules/.cache/'' @ ident),
                    cacheIdentifier = hash e (JObj variables)\<rparr>
           \<and> map_of variables ''configFiles'' = Some (JArr entries)
           \<and> length entries = length (configFileList cf)
           \<and> (\<forall>i < length entries.
                 \<not> existsSync e (resolve e s (configFileList cf ! i))
                 \<or> isl (readFileSync e (resolve e s (configFileList cf ! i)))
                 \<longrightarrow> entries ! i = JUndefined)
           \<and> (cacheLoaderVersion e = None \<longrightarrow> map_of variables ''cache-loader'' = None)))
   \<and> (isl (loadJSON e ''cache-loader/package.json'') \<longrightarrow> cacheLoaderVersion e = None)"
proof (intro conjI impI)
  show "isl (getCacheIdentifier e s ident pid cf) = isl (loaded_version e ''../package.json'')"
    using cacheVariables_fails [of e s pid cf]
    by (cases "cacheVariables e s pid cf") (simp_all add: getCacheIdentifier_def)
next
  assume "loaded_version e ''../package.json'' = Inr v"
  from cacheVariables_succeeds [OF this] obtain variables where
    vars: "cacheVariables e s pid cf = Inr variables" by blast
  let ?entries = "map (\<lambda>file. normalizeContent (readConfig e s file)) (configFileList cf)"
  have a1: "getCacheIdentifier e s ident pid cf =
          Inr \<lparr>cacheDirectory = resolve e s (''node_modules/.cache/'' @ ident),
               cacheIdentifier = hash e (JObj variables)\<rparr>"
    using vars by (simp add: getCacheIdentifier_def)
  have a2: "map_of variables ''configFiles'' = Some (JArr ?entries)"
    using vars by (rule cacheVariables_configFiles)
  have a3: "length ?entries = length (configFileList cf)" by simp
  have a4: "\<forall>i < length ?entries.
                 \<not> existsSync e (resolve e s (configFileList cf ! i))
                 \<or> isl (readFileSync e (resolve e s (configFileList cf ! i)))
                 \<longrightarrow> ?entries ! i = JUndefined"
    using readConfig_absent by simp
  have a5: "cacheLoaderVersion e = None \<longrightarrow> map_of variables ''cache-loader'' = None"
    using cacheVariables_cache_loader [OF vars] by simp
  show "\<exists>variables entries.
           cacheVariables e s pid cf = Inr variables
           \<and> getCacheIdentifier e s ident pid cf =
               Inr \<lparr>cacheDirectory = resolve e s (''node_modules/.cache/'' @ ident),
                    cacheIdentifier = hash e (JObj variables)\<rparr>
           \<and> map_of variables ''configFiles'' = Some (JArr entries)
           \<and> length entries = length (configFileList cf)
           \<and> (\<forall>i < length entries.
                 \<not> existsSync e (resolve e s (configFileList cf ! i))
                 \<or> isl (readFileSync e (resolve e s (configFileList cf ! i)))
                 \<longrightarrow> entries ! i = JUndefined)
           \<and> (cacheLoaderVersion e = None \<longrightarrow> map_of variables ''cache-loader'' = None)"
    by (rule exI [of _ variables], rule exI [of _ ?entries]) (intro conjI vars a1 a2 a3 a4 a5)
next
  assume "isl (loadJSON e ''cache-loader/package.json'')"
  then show "cacheLoaderVersion e = None"
    by (auto simp: cacheLoaderVersion_def loaded_version_def isl_def)
qed


text \<open>
  The concrete project: no \<open>cache-loader\<close>, an unreadable \<open>babel.config.js\<close>, no
  \<open>package-lock.json\<close>.
\<close>

theorem getCacheIdentifier_tolerates_missing_inputs_witness:
  "loaded_version sample_env ''../package.json'' = Inr (JStr ''5.0.8'')
   \<and> isl (loadJSON sample_env ''cache-loader/package.json'')
   \<and> existsSync sample_env (resolve sample_env sample_service ''babel.config.js'')
   \<and> isl (readFileSync sample_env (resolve sample_env sample_service ''babel.config.js''))
   \<and> \<not> existsSync sample_env (resolve sample_env sample_service ''package-lock.json'')
   \<and> (\<exists>variables entries.
         getCacheIdentifier sample_env sample_service ''babel-loader'' (JStr ''babel'')
             (Single ''babel.config.js'') =
           Inr \<lparr>cacheDirectory = ''/app/node_modules/.cache/babel-loader'',
                cacheIdentifier = hash sample_env (JObj variables)\<rparr>
         \<and> map_of variables ''configFiles'' = Some (JArr entries)
         \<and> entries ! 0 = JUndefined
         \<and> entries ! 1 = JUndefined
         \<and> map_of variables ''cache-loader'' = None)"
proof -
  let ?cf = "Single ''babel.config.js''"
  have host: "loaded_version sample_env ''../package.json'' = Inr (JStr ''5.0.8'')"
    by (simp add: loaded_version_def sample_env_def sample_loadJSON_def)
  have loader: "isl (loadJSON sample_env ''cache-loader/package.json'')"
    by (simp add: sample_env_def sample_loadJSON_def)
  have files: "configFileList ?cf =
      [''babel.config.js'', ''package-lock.json'', ''yarn.lock'', ''pnpm-lock.yaml'']"
    by (simp add: configFileList_def lockfiles_def)
  have babel1: "existsSync sample_env (resolve sample_env sample_service ''babel.config.js'')"
    by (simp add: sample_env_def sample_service_def resolve_def sample_path_resolve_def)
  have babel2:
    "isl (readFileSync sample_env (resolve sample_env sample_service ''babel.config.js''))"
    by (simp add: sample_env_def sample_service_def resolve_def sample_path_resolve_def)
  have lock: "\<not> existsSync sample_env (resolve sample_env sample_service ''package-lock.json'')"
    by (simp add: sample_env_def sample_service_def resolve_def sample_path_resolve_def)
  have dir: "resolve sample_env sample_service (''node_modules/.cache/'' @ ''babel-loader'')
      = ''/app/node_modules/.cache/babel-loader''"
    by (simp add: sample_env_def sample_service_def resolve_def sample_path_resolve_def)
  note inst = getCacheIdentifier_tolerates_missing_inputs
      [of sample_env sample_service "''babel-loader''" "JStr ''babel''" ?cf "JStr ''5.0.8''"]
  note ok = inst [THEN conjunct2, THEN conjunct1, rule_format, OF host]
  note swallowed = inst [THEN conjunct2, THEN conjunct2, rule_format, OF loader]
  from ok obtain variables entries where
    r: "getCacheIdentifier sample_env sample_service ''babel-loader'' (JStr ''babel'') ?cf =
          Inr \<lparr>cacheDirectory =
                 resolve sample_env sample_service (''node_modules/.cache/'' @ ''babel-loader''),
               cacheIdentifier = hash sample_env (JObj variables)\<rparr>"
    and cfs: "map_of variables ''configFiles'' = Some (JArr entries)"
    and len: "length entries = length (configFileList ?cf)"
    and absent: "\<forall>i < length entries.
                 \<not> existsSync sample_env (resolve sample_env sample_service (configFileList ?cf ! i))
                 \<or> isl (readFileSync sample_env
                          (resolve sample_env sample_service (configFileList ?cf ! i)))
                 \<longrightarrow> entries ! i = JUndefined"
    and cl: "cacheLoaderVersion sample_env = None \<longrightarrow> map_of variables ''cache-loader'' = None"
    by (elim exE conjE)
  from cl swallowed have none: "map_of variables ''cache-loader'' = None" by (rule mp)
  from len have l4: "length entries = 4" unfolding files by simp
  have f0: "configFileList ?cf ! 0 = ''babel.config.js''" unfolding files by simp
  have f1: "configFileList ?cf ! 1 = ''package-lock.json''" unfolding files by simp
  have e0: "entries ! 0 = JUndefined"
  proof (rule absent [rule_format])
    show "0 < length entries" unfolding l4 by simp
    show "\<not> existsSync sample_env
              (resolve sample_env sample_service (configFileList ?cf ! 0))
          \<or> isl (readFileSync sample_env
                   (resolve sample_env sample_service (configFileList ?cf ! 0)))"
      unfolding f0 using babel2 by (rule disjI2)
  qed
  have e1: "entries ! 1 = JUndefined"
  proof (rule absent [rule_format])
    show "1 < length entries" unfolding l4 by simp
    show "\<not> existsSync sample_env
              (resolve sample_env sample_service (configFileList ?cf ! 1))
          \<or> isl (readFileSync sample_env
                   (resolve sample_env sample_service (configFileList ?cf ! 1)))"
      unfolding f1 using lock by (rule disjI1)
  qed
  have ex: "\<exists>variables entries.
         getCacheIdentifier sample_env sample_service ''babel-loader'' (JStr ''babel'') ?cf =
           Inr \<lparr>cacheDirectory = ''/app/node_modules/.cache/babel-loader'',
                cacheIdentifier = hash sample_env (JObj variables)\<rparr>
         \<and> map_of variables ''configFiles'' = Some (JArr entries)
         \<and> entries ! 0 = JUndefined
         \<and> entries ! 1 = JUndefined
         \<and> map_of variables ''cache-loader'' = None"
    by (rule exI [of _ variables], rule exI [of _ entries])
       (intro conjI r [unfolded dir] cfs e0 e1 none)
  show ?thesis by (intro conjI host loader babel1 babel2 lock ex)
qed

lemma fmtFunc_JFunc: "fmtFunc (JFunc src) = JStr (replace_crlf src)"
  by (simp add: fmtFunc_def)

lemma cacheVariables_stable:
  assumes "loaded_version e1 ''../package.json'' = loaded_version e2 ''../package.json''"
    and "cacheLoaderVersion e1 = cacheLoaderVersion e2"
    and "NODE_ENV e1 = NODE_ENV e2"
    and "truthy (env_value (REACT_CLI_TEST e1)) = truthy (env_value (REACT_CLI_TEST e2))"
    and "fmtFunc (userOptions_chainWebpack s1) = fmtFunc (userOptions_chainWebpack s2)"
    and "fmtFunc (userOptions_configureWebpack s1) = fmtFunc (userOptions_configureWebpack s2)"
    and files: "\<forall>file \<in> set (configFileList cf).
           map_option replace_crlf (readConfig e1 s1 file)
             = map_option replace_crlf (readConfig e2 s2 file)"
  shows "cacheVariables e1 s1 pid cf = cacheVariables e2 s2 pid cf"
proof -
  have "map (\<lambda>file. normalizeContent (readConfig e1 s1 file)) (configFileList cf)
      = map (\<lambda>file. normalizeContent (readConfig e2 s2 file)) (configFileList cf)"
  proof (rule map_cong [OF refl])
    fix f
    assume "f \<in> set (configFileList cf)"
    with files have eq: "map_option replace_crlf (readConfig e1 s1 f)
             = map_option replace_crlf (readConfig e2 s2 f)"
      by blast
    show "normalizeContent (readConfig e1 s1 f) = normalizeContent (readConfig e2 s2 f)"
      unfolding normalizeContent_eq by (simp only: eq)
  qed
  then show ?thesis
    unfolding cacheVariables_def Let_def assms(1-6) by (simp only:)
qed

lemma cacheVariables_chainWebpack_source:
  "(cacheVariables e (s\<lparr>userOptions_chainWebpack := JFunc a\<rparr>) pid cf
      = cacheVariables e (s\<lparr>userOptions_chainWebpack := JFunc b\<rparr>) pid cf)
   = (isl (loaded_version e ''../package.json'') \<or> replace_crlf a = replace_crlf b)"
proof (cases "loaded_version e ''../package.json''")
  case (Inl err)
  then show ?thesis by (simp add: cacheVariables_def)
next
  case (Inr v)
  let ?sa = "s\<lparr>userOptions_chainWebpack := JFunc a\<rparr>"
  let ?sb = "s\<lparr>userOptions_chainWebpack := JFunc b\<rparr>"
  from cacheVariables_succeeds [OF Inr] obtain va where
    va: "cacheVariables e ?sa pid cf = Inr va" by blast
  from cacheVariables_succeeds [OF Inr] obtain vb where
    vb: "cacheVariables e ?sb pid cf = Inr vb" by blast
  show ?thesis
  proof
    assume "cacheVariables e ?sa pid cf = cacheVariables e ?sb pid cf"
    with va vb have "va = vb" by simp
    with cacheVariables_config [OF va] cacheVariables_config [OF vb]
    show "isl (loaded_version e ''../package.json'') \<or> replace_crlf a = replace_crlf b"
      by (simp add: fmtFunc_JFunc)
  next
    assume "isl (loaded_version e ''../package.json'') \<or> replace_crlf a = replace_crlf b"
    with Inr have "replace_crlf a = replace_crlf b" by simp
    then show "cacheVariables e ?sa pid cf = cacheVariables e ?sb pid cf"
      using Inr
      by (simp add: cacheVariables_def Let_def fmtFunc_JFunc readConfig_def resolve_def)
  qed
qed

lemma cacheVariables_configureWebpack_source:
  "(cacheVariables e (s\<lparr>userOptions_configureWebpack := JFunc a\<rparr>) pid cf
      = cacheVariables e (s\<lparr>userOptions_configureWebpack := JFunc b\<rparr>) pid cf)
   = (isl (loaded_version e ''../package.json'') \<or> replace_crlf a = replace_crlf b)"
proof (cases "loaded_version e ''../package.json''")
  case (Inl err)
  then show ?thesis by (simp add: cacheVariables_def)
next
  case (Inr v)
  let ?sa = "s\<lparr>userOptions_configureWebpack := JFunc a\<rparr>"
  let ?sb = "s\<lparr>userOptions_configureWebpack := JFunc b\<rparr>"
  from cacheVariables_succeeds [OF Inr] obtain va where
    va: "cacheVariables e ?sa pid cf = Inr va" by blast
  from cacheVariables_succeeds [OF Inr] obtain vb where
    vb: "cacheVariables e ?sb pid cf = Inr vb" by blast
  show ?thesis
  proof
    assume "cacheVariables e ?sa pid cf = cacheVariables e ?sb pid cf"
    with va vb have "va = vb" by simp
    with cacheVariables_config [OF va] cacheVariables_config [OF vb]
    show "isl (loaded_version e ''../package.json'') \<or> replace_crlf a = replace_crlf b"
      by (simp add: fmtFunc_JFunc)
  next
    assume "isl (loaded_version e ''../package.json'') \<or> replace_crlf a = replace_crlf b"
    with Inr have "replace_crlf a = replace_crlf b" by simp
    then show "cacheVariables e ?sa pid cf = cacheVariables e ?sb pid cf"
      using Inr
      by (simp add: cacheVariables_def Let_def fmtFunc_JFunc readConfig_def resolve_def)
  qed
qed

text \<open>
  C1. Two calls whose inputs agree return the same identifier, also
  on two machines: it is enough that the hash function, the service's version, the
  \<open>cache-loader\<close> version (or its absence), \<open>NODE_ENV\<close>, the truth value of
  \<open>REACT_CLI_TEST\<close> and the partial identifier are the same, that the two user options
  serialise alike, and that every file of the sequence has the same content once
  carriage returns are normalised (a missing and an unreadable file count as the same).
  Function sources with the same normalised text serialise alike. Replacing the source
  of \<open>chainWebpack\<close> or of \<open>configureWebpack\<close> changes the hashed object exactly
  when the normalised texts differ (and the service's version can be loaded at all); a
  change of line-ending style alone does not change it.
\<close>

theorem getCacheIdentifier_stable_up_to_line_endings:
  "(hash e1 = hash e2
    \<and> loaded_version e1 ''../package.json'' = loaded_version e2 ''../package.json''
    \<and> cacheLoaderVersion e1 = cacheLoaderVersion e2
    \<and> NODE_ENV e1 = NODE_ENV e2
    \<and> truthy (env_value (REACT_CLI_TEST e1)) = truthy (env_value (REACT_CLI_TEST e2))
    \<and> fmtFunc (userOptions_chainWebpack s1) = fmtFunc (userOptions_chainWebpack s2)
    \<and> fmtFunc (userOptions_configureWebpack s1) = fmtFunc (userOptions_configureWebpack s2)
    \<and> (\<forall>file \<in> set (configFileList cf).
          map_option replace_crlf (readConfig e1 s1 file)
            = map_option replace_crlf (readConfig e2 s2 file))
    \<longrightarrow> map_sum id cacheIdentifier (getCacheIdentifier e1 s1 ident1 pid cf)
          = map_sum id cacheIdentifier (getCacheIdentifier e2 s2 ident2 pid cf))
   \<and> (replace_crlf a = replace_crlf b \<longrightarrow> fmtFunc (JFunc a) = fmtFunc (JFunc b))
   \<and> (cacheVariables e (s\<lparr>userOptions_chainWebpack := JFunc a\<rparr>) pid cf
        = cacheVariables e (s\<lparr>userOptions_chainWebpack := JFunc b\<rparr>) pid cf)
      = (isl (loaded_version e ''../package.json'') \<or> replace_crlf a = replace_crlf b)
   \<and> (cacheVariables e (s\<lparr>userOptions_configureWebpack := JFunc a\<rparr>) pid cf
        = cacheVariables e (s\<lparr>userOptions_configureWebpack := JFunc b\<rparr>) pid cf)
      = (isl (loaded_version e ''../package.json'') \<or> replace_crlf a = replace_crlf b)"
proof (intro conjI impI)
  assume h: "hash e1 = hash e2
    \<and> loaded_version e1 ''../package.json'' = loaded_version e2 ''../package.json''
    \<and> cacheLoaderVersion e1 = cacheLoaderVersion e2
    \<and> NODE_ENV e1 = NODE_ENV e2
    \<and> truthy (env_value (REACT_CLI_TEST e1)) = truthy (env_value (REACT_CLI_TEST e2))
    \<and> fmtFunc (userOptions_chainWebpack s1) = fmtFunc (userOptions_chainWebpack s2)
    \<and> fmtFunc (userOptions_configureWebpack s1) = fmtFunc (userOptions_configureWebpack s2)
    \<and> (\<forall>file \<in> set (configFileList cf).
          map_option replace_crlf (readConfig e1 s1 file)
            = map_option replace_crlf (readConfig e2 s2 file))"
  then have "cacheVariables e1 s1 pid cf = cacheVariables e2 s2 pid cf"
    by (intro cacheVariables_stable) simp_all
  moreover from h have "hash e1 = hash e2" by simp
  ultimately show "map_sum id cacheIdentifier (getCacheIdentifier e1 s1 ident1 pid cf)
          = map_sum id cacheIdentifier (getCacheIdentifier e2 s2 ident2 pid cf)"
    by (cases "cacheVariables e2 s2 pid cf") (simp_all add: getCacheIdentifier_def)
next
  assume "replace_crlf a = replace_crlf b"
  then show "fmtFunc (JFunc a) = fmtFunc (JFunc b)" by (simp add: fmtFunc_JFunc)
next
  show "(cacheVariables e (s\<lparr>userOptions_chainWebpack := JFunc a\<rparr>) pid cf
        = cacheVariables e (s\<lparr>userOptions_chainWebpack := JFunc b\<rparr>) pid cf)
      = (isl (loaded_version e ''../package.json'') \<or> replace_crlf a = replace_crlf b)"
    by (rule cacheVariables_chainWebpack_source)
next
  show "(cacheVariables e (s\<lparr>userOptions_configureWebpack := JFunc a\<rparr>) pid cf
        = cacheVariables e (s\<lparr>userOptions_configureWebpack := JFunc b\<rparr>) pid cf)
      = (isl (loaded_version e ''../package.json'') \<or> replace_crlf a = replace_crlf b)"
    by (rule cacheVariables_configureWebpack_source)
qed


text \<open>
  The concrete project on its two machines: the user's function and \<open>yarn.lock\<close>
  differ in their line endings, \<open>babel.config.js\<close> is unreadable on one and missing
  on the other, and the identifiers agree.
\<close>

theorem getCacheIdentifier_stable_witness:
  "hash sample_env = hash sample_env_lf
   \<and> loaded_version sample_env ''../package.json'' = loaded_version sample_env_lf ''../package.json''
   \<and> cacheLoaderVersion sample_env = cacheLoaderVersion sample_env_lf
   \<and> NODE_ENV sample_env = NODE_ENV sample_env_lf
   \<and> truthy (env_value (REACT_CLI_TEST sample_env))
       = truthy (env_value (REACT_CLI_TEST sample_env_lf))
   \<and> userOptions_chainWebpack sample_service \<noteq> userOptions_chainWebpack sample_service_lf
   \<and> fmtFunc (userOptions_chainWebpack sample_service)
       = fmtFunc (userOptions_chainWebpack sample_service_lf)
   \<and> fmtFunc (userOptions_configureWebpack sample_service)
       = fmtFunc (userOptions_configureWebpack sample_service_lf)
   \<and> readConfig sample_env sample_service ''yarn.lock''
       \<noteq> readConfig sample_env_lf sample_service_lf ''yarn.lock''
   \<and> list_all (\<lambda>file. map_option replace_crlf (readConfig sample_env sample_service file)
                       = map_option replace_crlf (readConfig sample_env_lf sample_service_lf file))
        (configFileList (Single ''babel.config.js''))
   \<and> map_sum id cacheIdentifier
        (getCacheIdentifier sample_env sample_service ''babel-loader'' (JStr ''babel'')
           (Single ''babel.config.js''))
       = map_sum id cacheIdentifier
           (getCacheIdentifier sample_env_lf sample_service_lf ''babel-loader'' (JStr ''babel'')
              (Single ''babel.config.js''))
   \<and> \<not> isl (getCacheIdentifier sample_env sample_service ''babel-loader'' (JStr ''babel'')
               (Single ''babel.config.js''))
   \<and> replace_crlf (''(c) => {'' @ [CR, LF] @ ''}'') = replace_crlf (''(c) => {'' @ [LF] @ ''}'')
   \<and> fmtFunc (JFunc (''(c) => {'' @ [CR, LF] @ ''}'')) = fmtFunc (JFunc (''(c) => {'' @ [LF] @ ''}''))"
proof -
  let ?cf = "Single ''babel.config.js''"
  have h1: "hash sample_env = hash sample_env_lf"
    by (simp add: sample_env_lf_def sample_env_def)
  have h2: "loaded_version sample_env ''../package.json''
              = loaded_version sample_env_lf ''../package.json''"
    by (simp add: loaded_version_def sample_env_lf_def sample_env_def)
  have h3: "cacheLoaderVersion sample_env = cacheLoaderVersion sample_env_lf"
    by (simp add: cacheLoaderVersion_def loaded_version_def sample_env_lf_def sample_env_def)
  have h4: "NODE_ENV sample_env = NODE_ENV sample_env_lf"
    by (simp add: sample_env_lf_def sample_env_def)
  have h5: "truthy (env_value (REACT_CLI_TEST sample_env))
       = truthy (env_value (REACT_CLI_TEST sample_env_lf))"
    by (simp add: sample_env_lf_def sample_env_def)
  have d1: "userOptions_chainWebpack sample_service \<noteq> userOptions_chainWebpack sample_service_lf"
    by (simp add: sample_service_lf_def sample_service_def)
  have h6: "fmtFunc (userOptions_chainWebpack sample_service)
       = fmtFunc (userOptions_chainWebpack sample_service_lf)"
    by (simp add: fmtFunc_def sample_service_lf_def sample_service_def)
  have h7: "fmtFunc (userOptions_configureWebpack sample_service)
       = fmtFunc (userOptions_configureWebpack sample_service_lf)"
    by (simp add: fmtFunc_def sample_service_lf_def sample_service_def)
  have d2: "readConfig sample_env sample_service ''yarn.lock''
       \<noteq> readConfig sample_env_lf sample_service_lf ''yarn.lock''"
    by (simp add: readConfig_def readAbsolute_def resolve_def sample_env_lf_def sample_env_def
        sample_service_lf_def sample_service_def sample_path_resolve_def)
  have h8: "list_all (\<lambda>file. map_option replace_crlf (readConfig sample_env sample_service file)
                       = map_option replace_crlf (readConfig sample_env_lf sample_service_lf file))
        (configFileList ?cf)"
    by (simp add: configFileList_def lockfiles_def readConfig_def readAbsolute_def resolve_def
        sample_env_lf_def sample_env_def sample_service_lf_def sample_service_def
        sample_path_resolve_def)
  then have h8': "\<forall>file \<in> set (configFileList ?cf).
          map_option replace_crlf (readConfig sample_env sample_service file)
            = map_option replace_crlf (readConfig sample_env_lf sample_service_lf file)"
    by (simp only: list_all_iff)
  note inst = getCacheIdentifier_stable_up_to_line_endings
      [of sample_env sample_env_lf sample_service sample_service_lf ?cf
          "''babel-loader''" "JStr ''babel''" "''babel-loader''"
          "''(c) => {'' @ [CR, LF] @ ''}''" "''(c) => {'' @ [LF] @ ''}''"]
  have c1: "map_sum id cacheIdentifier
        (getCacheIdentifier sample_env sample_service ''babel-loader'' (JStr ''babel'') ?cf)
       = map_sum id cacheIdentifier
           (getCacheIdentifier sample_env_lf sample_service_lf ''babel-loader'' (JStr ''babel'') ?cf)"
    by (rule inst [THEN conjunct1, rule_format]) (intro conjI h1 h2 h3 h4 h5 h6 h7 h8')
  have r: "\<not> isl (getCacheIdentifier sample_env sample_service ''babel-loader''
                      (JStr ''babel'') ?cf)"
    by (simp add: getCacheIdentifier_def sample_variables)
  have n: "replace_crlf (''(c) => {'' @ [CR, LF] @ ''}'') = replace_crlf (''(c) => {'' @ [LF] @ ''}'')"
    by simp
  have c2: "fmtFunc (JFunc (''(c) => {'' @ [CR, LF] @ ''}'')) = fmtFunc (JFunc (''(c) => {'' @ [LF] @ ''}''))"
    by (rule inst [THEN conjunct2, THEN conjunct1, rule_format]) (rule n)
  show ?thesis by (intro conjI h1 h2 h3 h4 h5 d1 h6 h7 d2 h8 c1 r n c2)
qed

end
